theory Spec2Isabelle
  imports Complex_Main
begin

section \<open>Python values shared by both pipelines\<close>

text \<open>
  Exceptions are values: a function of the source that can raise returns
  \<open>error + 'a\<close>, with \<open>Inl\<close> carrying the exception.  Python integers are
  \<open>int\<close>.  Python floats are idealised as \<open>real\<close> (or \<open>rat\<close>): rounding of
  the binary floating-point format is not part of the model.
\<close>

datatype error =
  ZeroDivisionError | ValueError | KeyError | AssertionError | IndexError | TypeError
  | UnboundLocalError

text \<open>\<^verbatim>\<open>range(a, b)\<close> on integers: \<open>a, a + 1, ..., b - 1\<close>, empty when \<open>b \<le> a\<close>.\<close>

definition py_range :: "int \<Rightarrow> int \<Rightarrow> int list" where
  "py_range a b = [a..b - 1]"

section \<open>ProGAN (models/proGAN.py)\<close>

subsection \<open>Resolution of a depth stage and the fade-in coefficient\<close>

text \<open>
  \<^verbatim>\<open>current_res = 2**(depth + 2)\<close> (line 245).  For \<open>depth + 2 \<ge> 0\<close> this is a
  Python integer; below that Python computes the same power of two as a float.
\<close>

definition current_res :: "int \<Rightarrow> rat" where
  "current_res d = 2 powi (d + 2)"

text \<open>
  The depth loop of \<^verbatim>\<open>train\<close> (line 244):
  \<^verbatim>\<open>range(start_depth, self.depth if until_depth is None else until_depth)\<close>.
\<close>

definition stage_depths :: "int \<Rightarrow> int \<Rightarrow> int option \<Rightarrow> int list" where
  "stage_depths start_d self_depth until_d =
     py_range start_d (case until_d of None \<Rightarrow> self_depth | Some u \<Rightarrow> u)"

text \<open>
  \<^verbatim>\<open>alpha = min(e / (num_epochs * fade_in), 1)\<close> (line 258).  The division raises
  \<^verbatim>\<open>ZeroDivisionError\<close> when the product is zero.
\<close>

definition fade_alpha :: "int \<Rightarrow> int \<Rightarrow> real \<Rightarrow> error + real" where
  "fade_alpha e n_epochs fade =
     (if of_int n_epochs * fade = 0 then Inl ZeroDivisionError
      else Inr (min (of_int e / (of_int n_epochs * fade)) 1))"

subsection \<open>Loss selection: \<^verbatim>\<open>setup_loss\<close>\<close>

text \<open>
  The loss classes come from \<^verbatim>\<open>..networks.losses\<close>; each constructor below is one
  class of that module applied to the arguments \<^verbatim>\<open>setup_loss\<close> passes, and
  \<open>Instance g\<close> is an object \<open>g\<close> for which \<^verbatim>\<open>isinstance(g, GANLoss)\<close> holds.
  The argument of \<^verbatim>\<open>setup_loss\<close> is a string, such an instance, or any other
  object (\<open>Other\<close>).
\<close>

datatype ('dev, 'net, 'g) ganloss =
    WGAN_GP 'dev 'net real bool
  | LSGAN 'net
  | LSGAN_SIGMOID 'net
  | HingeLoss 'net
  | RelativisticAverageHinge 'net
  | R1Regularized 'dev 'net
  | Instance 'g

datatype 'g loss_arg = Str string | GANLossInstance 'g | Other

text \<open>
  \<^verbatim>\<open>str.lower()\<close> on the ASCII range: \<open>A..Z\<close> (codes 65 to 90) move to
  \<open>a..z\<close>, every other byte stays.
\<close>

definition lower_char :: "char \<Rightarrow> char" where
  "lower_char c =
     (let n = (of_char c :: nat) in if 65 \<le> n \<and> n \<le> 90 then char_of (n + 32) else c)"

definition py_lower :: "string \<Rightarrow> string" where
  "py_lower s = map lower_char s"

subsection \<open>Optimizer objects\<close>

text \<open>
  An optimizer object of the framework keeps its hyper-parameters per parameter group
  (\<^verbatim>\<open>param_groups\<close>, a list of dictionaries with the entries \<^verbatim>\<open>lr\<close>,
  \<^verbatim>\<open>betas\<close>, \<^verbatim>\<open>eps\<close>); \<^verbatim>\<open>Adam(params, lr=..., betas=..., eps=...)\<close> over one
  iterable of tensors builds a single group.  Any further attribute assigned from
  outside lands in the instance dictionary, modelled by \<open>attrs\<close>.
\<close>

record param_group =
  lr :: real
  betas :: "real \<times> real"
  eps :: real

record optimizer =
  param_groups :: "param_group list"
  attrs :: "string \<rightharpoonup> real"

definition Adam :: "real \<Rightarrow> real \<times> real \<Rightarrow> real \<Rightarrow> optimizer" where
  "Adam rate bs e =
     \<lparr>param_groups = [\<lparr>lr = rate, betas = bs, eps = e\<rparr>], attrs = Map.empty\<rparr>"

text \<open>The attribute assignment \<^verbatim>\<open>optim.lr = v\<close>.\<close>

definition setattr_lr :: "optimizer \<Rightarrow> real \<Rightarrow> optimizer" where
  "setattr_lr opt v = opt\<lparr>attrs := (attrs opt)(''lr'' \<mapsto> v)\<rparr>"

text \<open>
  The step size an Adam step applies to the parameters of each group: the framework's
  \<^verbatim>\<open>Adam.step\<close> reads it from the group's \<^verbatim>\<open>lr\<close> entry.
\<close>

definition step_sizes :: "optimizer \<Rightarrow> real list" where
  "step_sizes opt = map lr (param_groups opt)"

subsection \<open>The ProGAN object\<close>

text \<open>
  The fields of \<^verbatim>\<open>self\<close> that the modelled methods read or assign.  \<open>depth\<close> is
  \<^verbatim>\<open>self.depth\<close>, that is the constructor's \<^verbatim>\<open>depth - 1\<close>.  \<open>saved\<close> is the log
  of the calls to \<^verbatim>\<open>save_networks\<close> (a method of \<^verbatim>\<open>BaseModel\<close>), in order.
\<close>

datatype checkpoint = Epoch int | Final

record ('dev, 'net, 'g) progan =
  device :: 'dev
  depth :: int
  drift :: real
  D :: 'net
  default_rate :: real
  G_optim :: optimizer
  D_optim :: optimizer
  model_names :: "string list"
  self_n_critic :: int
  self_loss :: "('dev, 'net, 'g) ganloss option"
  saved :: "checkpoint list"

text \<open>
  The part of \<^verbatim>\<open>__init__\<close> that creates the two optimizers (lines 62 to 64), on an
  object whose other fields are given.
\<close>

definition init_optimizers ::
  "real \<Rightarrow> real \<Rightarrow> real \<Rightarrow> real \<Rightarrow> ('dev, 'net, 'g) progan \<Rightarrow> ('dev, 'net, 'g) progan" where
  "init_optimizers learning_rate beta_1 beta_2 e self =
     self\<lparr>default_rate := learning_rate,
          G_optim := Adam learning_rate (beta_1, beta_2) e,
          D_optim := Adam learning_rate (beta_1, beta_2) e\<rparr>"

text \<open>
  \<^verbatim>\<open>setup_loss\<close> (lines 80 to 103).  The method assigns nothing to \<^verbatim>\<open>self\<close>; it
  returns its result together with the object as it leaves it.
\<close>

definition setup_loss ::
  "('dev, 'net, 'g) progan \<Rightarrow> 'g loss_arg \<Rightarrow>
     (error + ('dev, 'net, 'g) ganloss) \<times> ('dev, 'net, 'g) progan" where
  "setup_loss self l =
     (case l of
        Str s \<Rightarrow>
          (let s = py_lower s in
           if s = ''wgan'' then (Inr (WGAN_GP (device self) (D self) (drift self) False), self)
           else if s = ''wgan-gp'' then
             (Inr (WGAN_GP (device self) (D self) (drift self) True), self)
           else if s = ''lsgan'' then (Inr (LSGAN (D self)), self)
           else if s = ''lsgan-sig'' then (Inr (LSGAN_SIGMOID (D self)), self)
           else if s = ''hinge'' then (Inr (HingeLoss (D self)), self)
           else if s = ''rel-avg'' then (Inr (RelativisticAverageHinge (D self)), self)
           else if s = ''r1-reg'' then (Inr (R1Regularized (device self) (D self)), self)
           else (Inl ValueError, self))
      | GANLossInstance g \<Rightarrow> (Inr (Instance g), self)
      | Other \<Rightarrow> (Inl ValueError, self))"

subsection \<open>The schedule of \<^verbatim>\<open>train\<close>\<close>

text \<open>
  The arguments of \<^verbatim>\<open>train\<close> that its control flow depends on.  The parameter
  \<^verbatim>\<open>start_epoch\<close> is overwritten by \<^verbatim>\<open>start_epoch = epoch = 1\<close> (line 222) before
  it is read, so it is not an input.
\<close>

record 'g train_args =
  continue_train :: bool
  start_depth :: int
  until_depth :: "int option"
  fade_in :: real
  save_freq :: int
  num_epochs :: int
  learning_rates_dict :: "rat \<rightharpoonup> real"
  n_critic :: int
  loss :: "'g loss_arg"

text \<open>
  Lines 222 to 227: the global epoch counter, the first depth and the first epoch of
  the first depth.  \<open>latest\<close> is what \<^verbatim>\<open>get_latest_network(start_epoch,
  max_epoch=total_epochs)\<close> (a method of \<^verbatim>\<open>BaseModel\<close>) returns.  Both
  \<^verbatim>\<open>math.ceil(epoch / num_epochs)\<close> and \<^verbatim>\<open>math.floor(epoch / num_epochs)\<close> divide
  by \<^verbatim>\<open>num_epochs\<close>.  The result is \<open>(epoch, start_depth, start_epoch)\<close>.
\<close>

definition resume ::
  "'g train_args \<Rightarrow> int \<Rightarrow> (int \<Rightarrow> int \<Rightarrow> int) \<Rightarrow> error + int \<times> int \<times> int" where
  "resume args total_epochs latest =
     (if continue_train args then
        (let ep = latest 1 total_epochs in
         if num_epochs args = 0 then Inl ZeroDivisionError
         else Inr (ep,
                   if start_depth args \<noteq> 1 then start_depth args
                   else \<lceil>real_of_int ep / real_of_int (num_epochs args)\<rceil>,
                   ep - \<lfloor>real_of_int ep / real_of_int (num_epochs args)\<rfloor> * num_epochs args))
      else Inr (1, start_depth args, 1))"

text \<open>
  Lines 251 and 252: the learning rate looked up for the resolution is assigned to the
  attribute \<^verbatim>\<open>lr\<close> of both optimizer objects.
\<close>

definition set_stage_lr ::
  "'g train_args \<Rightarrow> int \<Rightarrow> ('dev, 'net, 'g) progan \<Rightarrow> ('dev, 'net, 'g) progan" where
  "set_stage_lr args d self =
     (let learning_rate =
            (case learning_rates_dict args (current_res d) of
               None \<Rightarrow> default_rate self | Some r \<Rightarrow> r)
      in self\<lparr>D_optim := setattr_lr (D_optim self) learning_rate,
              G_optim := setattr_lr (G_optim self) learning_rate\<rparr>)"

text \<open>
  One pass of the epoch loop (lines 254 to 305) on the pair of the global epoch counter
  and the object.  The batch loop and the logging in between call the framework and
  touch neither the counter nor the checkpoints; they are left out.  \<^verbatim>\<open>epoch %
  save_freq\<close> raises \<^verbatim>\<open>ZeroDivisionError\<close> when \<^verbatim>\<open>save_freq\<close> is zero.
\<close>

definition save_networks ::
  "checkpoint \<Rightarrow> ('dev, 'net, 'g) progan \<Rightarrow> ('dev, 'net, 'g) progan" where
  "save_networks c self = self\<lparr>saved := saved self @ [c]\<rparr>"

definition epoch_body ::
  "'g train_args \<Rightarrow> int \<Rightarrow> int \<Rightarrow> int \<times> ('dev, 'net, 'g) progan \<Rightarrow>
     error + int \<times> ('dev, 'net, 'g) progan" where
  "epoch_body args total_epochs e st =
     (case st of (ep, self) \<Rightarrow>
        (case fade_alpha e (num_epochs args) (fade_in args) of
           Inl err \<Rightarrow> Inl err
         | Inr alpha \<Rightarrow>
             if save_freq args = 0 then Inl ZeroDivisionError
             else if ep mod save_freq args = 0 \<or> ep = total_epochs
               then Inr (ep + 1, save_networks (Epoch ep) self)
               else Inr (ep + 1, self)))"

fun epoch_loop ::
  "'g train_args \<Rightarrow> int \<Rightarrow> int list \<Rightarrow> int \<times> ('dev, 'net, 'g) progan \<Rightarrow>
     error + int \<times> ('dev, 'net, 'g) progan" where
  "epoch_loop args total_epochs [] st = Inr st"
| "epoch_loop args total_epochs (e # es) st =
     (case epoch_body args total_epochs e st of
        Inl err \<Rightarrow> Inl err
      | Inr st' \<Rightarrow> epoch_loop args total_epochs es st')"

text \<open>
  The epochs of one depth (line 254):
  \<^verbatim>\<open>range(start_epoch if depth == start_depth else 1, num_epochs + 1)\<close>.
\<close>

definition stage_epochs :: "int \<Rightarrow> int \<Rightarrow> int \<Rightarrow> int \<Rightarrow> int list" where
  "stage_epochs n_epochs start_d start_e d =
     py_range (if d = start_d then start_e else 1) (n_epochs + 1)"

fun depth_loop ::
  "'g train_args \<Rightarrow> int \<Rightarrow> int \<Rightarrow> int \<Rightarrow> int list \<Rightarrow> int \<times> ('dev, 'net, 'g) progan \<Rightarrow>
     error + int \<times> ('dev, 'net, 'g) progan" where
  "depth_loop args total_epochs start_d start_e [] st = Inr st"
| "depth_loop args total_epochs start_d start_e (d # ds) st =
     (case st of (ep, self) \<Rightarrow>
        (case epoch_loop args total_epochs (stage_epochs (num_epochs args) start_d start_e d)
                (ep, set_stage_lr args d self) of
           Inl err \<Rightarrow> Inl err
         | Inr st' \<Rightarrow> depth_loop args total_epochs start_d start_e ds st'))"

text \<open>
  \<^verbatim>\<open>train\<close> (lines 216 to 308) without the data loader and the framework calls.
\<close>

definition train ::
  "'g train_args \<Rightarrow> (int \<Rightarrow> int \<Rightarrow> int) \<Rightarrow> ('dev, 'net, 'g) progan \<Rightarrow>
     error + ('dev, 'net, 'g) progan" where
  "train args latest self0 =
     (let self1 = self0\<lparr>model_names := [''G'', ''D''], self_n_critic := n_critic args\<rparr> in
      case fst (setup_loss self1 (loss args)) of
        Inl err \<Rightarrow> Inl err
      | Inr l \<Rightarrow>
          (let self2 = self1\<lparr>self_loss := Some l\<rparr>;
               total_epochs = num_epochs args * depth self2
           in case resume args total_epochs latest of
                Inl err \<Rightarrow> Inl err
              | Inr (ep, start_d, start_e) \<Rightarrow>
                  (case depth_loop args total_epochs start_d start_e
                          (stage_depths start_d (depth self2) (until_depth args)) (ep, self2) of
                     Inl err \<Rightarrow> Inl err
                   | Inr (ep', self3) \<Rightarrow> Inr (save_networks Final self3))))"

text \<open>
  The schedule as the specification words it: a global epoch is due for a checkpoint
  when \<^verbatim>\<open>epoch % save_freq == 0 or epoch == total_epochs\<close>; the global epochs of a run
  that starts at \<open>ep0\<close> and makes \<open>k\<close> passes of the epoch loop are \<open>ep0, ..., ep0 + k -
  1\<close>; \<open>epochs_run\<close> counts the passes over a list of depths.
\<close>

definition due :: "'g train_args \<Rightarrow> int \<Rightarrow> int \<Rightarrow> bool" where
  "due args total_epochs ep = (ep mod save_freq args = 0 \<or> ep = total_epochs)"

definition global_epochs :: "int \<Rightarrow> nat \<Rightarrow> int list" where
  "global_epochs ep0 k = map (\<lambda>i. ep0 + int i) [0..<k]"


text \<open>The names \<^verbatim>\<open>setup_loss\<close> compares the lower-cased string with.\<close>

definition known_losses :: "string list" where
  "known_losses = [''wgan'', ''wgan-gp'', ''lsgan'', ''lsgan-sig'', ''hinge'', ''rel-avg'', ''r1-reg'']"

text \<open>A small run: \<^verbatim>\<open>ProGAN(depth=4).train(num_epochs=4, save_freq=3, ...)\<close>.\<close>

definition example_args :: "unit train_args" where
  "example_args = \<lparr>continue_train = False, start_depth = 1, until_depth = None, fade_in = 1/2,
     save_freq = 3, num_epochs = 4, learning_rates_dict = [8 \<mapsto> 1/2000, 16 \<mapsto> 1/4000],
     n_critic = 1, loss = Str ''wgan-gp''\<rparr>"

definition example_progan :: "(unit, unit, unit) progan" where
  "example_progan = \<lparr>device = (), depth = 3, drift = 1/1000, D = (), default_rate = 1/1000,
     G_optim = Adam (1/1000) (0, 99/100) (1/10^8), D_optim = Adam (1/1000) (0, 99/100) (1/10^8),
     model_names = [], self_n_critic = 1, self_loss = None, saved = []\<rparr>"

subsection \<open>Exponential moving average: \<^verbatim>\<open>update_average\<close>\<close>

text \<open>
  A parameter tensor is an object with an identity: a model lists its parameters as
  pairs of a name and the address of the tensor (\<^verbatim>\<open>named_parameters()\<close>), and the
  state maps each address to the tensor's value and to its \<^verbatim>\<open>requires_grad\<close> flag.
  Tensor values are elements of a real vector space: \<open>beta *\<^sub>R p\<close> is the product of
  the tensor \<open>p\<close> with the scalar \<open>beta\<close>.  \<open>next_addr\<close> is the first address
  that no object occupies yet.
\<close>

type_synonym model = "(string \<times> nat) list"

record 'a params_state =
  vals :: "nat \<Rightarrow> 'a"
  requires_grad :: "nat \<Rightarrow> bool"
  next_addr :: nat

text \<open>
  \<^verbatim>\<open>set_requires_grad\<close> is a method of \<^verbatim>\<open>BaseModel\<close>; it is a parameter of the
  model here, a function on the flags.
\<close>

type_synonym set_requires_grad = "model \<Rightarrow> bool \<Rightarrow> (nat \<Rightarrow> bool) \<Rightarrow> (nat \<Rightarrow> bool)"

text \<open>\<^verbatim>\<open>dict(pairs)\<close>: a later pair overrides an earlier one with the same key.\<close>

definition py_dict :: "('k \<times> 'v) list \<Rightarrow> ('k \<rightharpoonup> 'v)" where
  "py_dict kvs = map_of (rev kvs)"

text \<open>
  The loop of lines 121 to 124.  \<^verbatim>\<open>param_dict_src[p_name]\<close> raises
  \<^verbatim>\<open>KeyError\<close> for a name the source lacks, the assertion fails when both names
  denote the same tensor object, and \<^verbatim>\<open>copy_\<close> overwrites the target tensor in
  place.
\<close>

fun update_loop ::
  "real \<Rightarrow> (string \<rightharpoonup> nat) \<Rightarrow> model \<Rightarrow> (nat \<Rightarrow> 'a::real_vector) \<Rightarrow> error + (nat \<Rightarrow> 'a)" where
  "update_loop beta param_dict_src [] v = Inr v"
| "update_loop beta param_dict_src ((p_name, p_tgt) # rest) v =
     (case param_dict_src p_name of
        None \<Rightarrow> Inl KeyError
      | Some p_src \<Rightarrow>
          if p_src = p_tgt then Inl AssertionError
          else update_loop beta param_dict_src rest
                 (v(p_tgt := beta *\<^sub>R v p_tgt + (1 - beta) *\<^sub>R v p_src)))"

definition update_average ::
  "set_requires_grad \<Rightarrow> model \<Rightarrow> model \<Rightarrow> real \<Rightarrow> ('a::real_vector) params_state \<Rightarrow>
     error + 'a params_state" where
  "update_average srg model_tgt model_src beta st =
     (let flags = srg model_src False (srg model_tgt False (requires_grad st));
          param_dict_src = py_dict model_src
      in case update_loop beta param_dict_src model_tgt (vals st) of
           Inl err \<Rightarrow> Inl err
         | Inr v \<Rightarrow>
             Inr (st\<lparr>vals := v,
                     requires_grad := srg model_src True (srg model_tgt True flags)\<rparr>))"

text \<open>
  \<^verbatim>\<open>copy.deepcopy(model)\<close>: every parameter gets a new tensor object with the same
  value and flag, under the same name.
\<close>

definition copy_cells :: "nat \<Rightarrow> model \<Rightarrow> (nat \<Rightarrow> 'b) \<Rightarrow> (nat \<Rightarrow> 'b)" where
  "copy_cells n m f = (\<lambda>a. if n \<le> a \<and> a < n + length m then f (snd (m ! (a - n))) else f a)"

definition deepcopy :: "model \<Rightarrow> 'a params_state \<Rightarrow> model \<times> 'a params_state" where
  "deepcopy m st =
     (let n = next_addr st
      in (zip (map fst m) [n..<n + length m],
          st\<lparr>vals := copy_cells n m (vals st),
             requires_grad := copy_cells n m (requires_grad st),
             next_addr := n + length m\<rparr>))"

text \<open>
  Lines 67 to 72 of \<^verbatim>\<open>__init__\<close>: the shadow generator, present when
  \<^verbatim>\<open>use_ema\<close> holds.
\<close>

definition init_shadow ::
  "set_requires_grad \<Rightarrow> bool \<Rightarrow> model \<Rightarrow> ('a::real_vector) params_state \<Rightarrow>
     error + model option \<times> 'a params_state" where
  "init_shadow srg use_ema G st =
     (if use_ema then
        (case deepcopy G st of (G_shadow, st1) \<Rightarrow>
           (case update_average srg G_shadow G 0 st1 of
              Inl err \<Rightarrow> Inl err
            | Inr st2 \<Rightarrow> Inr (Some G_shadow, st2)))
      else Inr (None, st))"

text \<open>A state with two tensors, at addresses 0 and 1.\<close>

definition example_params :: "real params_state" where
  "example_params =
     \<lparr>vals = (\<lambda>a. if a = 0 then 2 else if a = 1 then 4 else 0), requires_grad = (\<lambda>a. True),
      next_addr = 2\<rparr>"

section \<open>MultiscaleStyle (neural\_style/multiscale.py)\<close>

subsection \<open>The styling sizes\<close>

text \<open>
  The numbers of lines 52 to 56 are Python floats, and a power of a negative float with
  a fractional exponent is a complex number in Python 3; its value is not tracked,
  since \<^verbatim>\<open>round\<close> rejects it.
\<close>

datatype pynum = PyFloat real | PyComplex

text \<open>
  \<^verbatim>\<open>x ** y\<close> on floats: \<^verbatim>\<open>ZeroDivisionError\<close> for \<open>0\<close> to a negative power, a
  complex number for a negative base with a fractional exponent, \<open>1\<close> for the exponent
  \<open>0\<close>, and the sign of the base kept for an odd integral exponent.
\<close>

definition py_pow :: "real \<Rightarrow> real \<Rightarrow> error + pynum" where
  "py_pow x y =
     (if x = 0 \<and> y < 0 then Inl ZeroDivisionError
      else if x < 0 \<and> of_int \<lfloor>y\<rfloor> \<noteq> y then Inr PyComplex
      else Inr (PyFloat
        (if y = 0 then 1
         else if x < 0 then (if even \<lfloor>y\<rfloor> then 1 else - 1) * ((- x) powr y)
         else x powr y)))"

text \<open>\<^verbatim>\<open>a / b\<close>; a complex divisor is never zero here.\<close>

definition py_div :: "pynum \<Rightarrow> pynum \<Rightarrow> error + pynum" where
  "py_div a b =
     (case b of
        PyComplex \<Rightarrow> Inr PyComplex
      | PyFloat y \<Rightarrow>
          if y = 0 then Inl ZeroDivisionError
          else (case a of PyComplex \<Rightarrow> Inr PyComplex | PyFloat x \<Rightarrow> Inr (PyFloat (x / y))))"

text \<open>
  \<^verbatim>\<open>round(x)\<close> with one argument: the nearest integer, a tie going to the even
  neighbour; \<^verbatim>\<open>TypeError\<close> on a complex number.
\<close>

definition round_half_even :: "real \<Rightarrow> int" where
  "round_half_even x =
     (let f = \<lfloor>x\<rfloor>; r = x - of_int f
      in if r < 1/2 then f else if 1/2 < r then f + 1 else if even f then f else f + 1)"

definition py_round :: "pynum \<Rightarrow> error + int" where
  "py_round c = (case c of PyFloat x \<Rightarrow> Inr (round_half_even x) | PyComplex \<Rightarrow> Inl TypeError)"

text \<open>
  Line 52: \<^verbatim>\<open>(self.image_size / self.start_size)**(1.0/(self.steps - 1))\<close>.  The two
  divisions are evaluated before the power.
\<close>

definition scale_factor :: "int \<Rightarrow> int \<Rightarrow> int \<Rightarrow> error + pynum" where
  "scale_factor image_size start_size steps =
     (if start_size = 0 then Inl ZeroDivisionError
      else if steps - 1 = 0 then Inl ZeroDivisionError
      else py_pow (of_int image_size / of_int start_size) (1 / of_int (steps - 1)))"

text \<open>Line 55: \<^verbatim>\<open>for s in range(k): current_size /= scale_factor\<close>.\<close>

fun divide_times :: "nat \<Rightarrow> pynum \<Rightarrow> pynum \<Rightarrow> error + pynum" where
  "divide_times 0 c sf = Inr c"
| "divide_times (Suc k) c sf =
     (case py_div c sf of Inl err \<Rightarrow> Inl err | Inr c' \<Rightarrow> divide_times k c' sf)"

text \<open>Lines 54 to 56 for one \<^verbatim>\<open>scale\<close>.\<close>

definition current_size :: "int \<Rightarrow> pynum \<Rightarrow> int \<Rightarrow> int \<Rightarrow> error + int" where
  "current_size image_size sf steps scale =
     (case divide_times (nat (steps - 1 - scale)) (PyFloat (of_int image_size)) sf of
        Inl err \<Rightarrow> Inl err
      | Inr c \<Rightarrow> py_round c)"

text \<open>
  The sizes that \<^verbatim>\<open>run\<close> announces (\<^verbatim>\<open>Styling at size ...\<close>) over \<^verbatim>\<open>range(steps)\<close>,
  when the styling of each scale completes.
\<close>

fun sizes_loop :: "int \<Rightarrow> pynum \<Rightarrow> int \<Rightarrow> int list \<Rightarrow> error + int list" where
  "sizes_loop image_size sf steps [] = Inr []"
| "sizes_loop image_size sf steps (scale # rest) =
     (case current_size image_size sf steps scale of
        Inl err \<Rightarrow> Inl err
      | Inr c \<Rightarrow>
          (case sizes_loop image_size sf steps rest of
             Inl err \<Rightarrow> Inl err
           | Inr cs \<Rightarrow> Inr (c # cs)))"

definition styling_sizes :: "int \<Rightarrow> int \<Rightarrow> int \<Rightarrow> error + int list" where
  "styling_sizes image_size start_size steps =
     (case scale_factor image_size start_size steps of
        Inl err \<Rightarrow> Inl err
      | Inr sf \<Rightarrow> sizes_loop image_size sf steps (py_range 0 steps))"

subsection \<open>The coarse-to-fine loop of \<^verbatim>\<open>run\<close>\<close>

text \<open>
  The operations of the framework and of \<^verbatim>\<open>.utils\<close> and \<^verbatim>\<open>NeuralStyle\<close> that the
  loop calls are parameters, on an abstract type of tensor values:
  \<open>interpolate x s\<close> is \<^verbatim>\<open>nn.functional.interpolate(x, size=s)\<close>,
  \<open>match_color x y\<close> is \<^verbatim>\<open>match_color(x, y).type(self.dtype)\<close>,
  \<open>handle_style_images s\<close> is the list \<^verbatim>\<open>styles\<close> that
  \<^verbatim>\<open>self.handle_style_images(self.style_images, s * self.style_scale)\<close> returns, and
  \<open>optimize content styles x\<close> is the value the image tensor holds when the loop
  \<^verbatim>\<open>while num_calls[0] <= loopVal: optimizer.step(feval)\<close> ends, started from \<open>x\<close> with
  the targets captured from \<open>content\<close> and \<open>styles\<close>.
\<close>

record 't torch =
  interpolate :: "'t \<Rightarrow> int \<Rightarrow> 't"
  match_color :: "'t \<Rightarrow> 't \<Rightarrow> 't"
  handle_style_images :: "int \<Rightarrow> 't list"
  optimize :: "'t \<Rightarrow> 't list \<Rightarrow> 't \<Rightarrow> 't"

text \<open>
  Tensors are objects: a variable holds an address into a heap of tensor values, and
  a call that returns a new tensor allocates the next address.
\<close>

definition alloc :: "'t \<Rightarrow> 't list \<Rightarrow> nat \<times> 't list" where
  "alloc v h = (length h, h @ [v])"

text \<open>What one scale did: its size, the image handed to the optimizer, the image it left.\<close>

record 't styled =
  styled_size :: int
  handed :: 't
  optimized :: 't

text \<open>
  Lines 59 to 114 for one scale, on the variable \<^verbatim>\<open>init\<close> and the heap.
  \<^verbatim>\<open>styles[0]\<close> raises \<^verbatim>\<open>IndexError\<close> on an empty list.  \<^verbatim>\<open>img =
  init.requires_grad_()\<close> returns the tensor itself, so \<^verbatim>\<open>img\<close> and \<^verbatim>\<open>init\<close> are the
  same object, and the optimizer updates that object in place.  Line 114 assigns a
  new tensor to the local variable \<^verbatim>\<open>init_image\<close>, which nothing reads.  The result
  is the record of the scale, the variable \<^verbatim>\<open>init\<close> (which is also \<^verbatim>\<open>img\<close>) and the
  heap.
\<close>

definition scale_body ::
  "'t torch \<Rightarrow> 't \<Rightarrow> int \<Rightarrow> nat \<times> 't list \<Rightarrow> error + 't styled \<times> nat \<times> 't list" where
  "scale_body env content_final csize st =
     (case st of (init, h) \<Rightarrow>
        (let styles = handle_style_images env csize;
             (init, h) = alloc (interpolate env (h ! init) csize) h
         in case styles of
              [] \<Rightarrow> Inl IndexError
            | style0 # _ \<Rightarrow>
                (let (init, h) = alloc (match_color env (h ! init) style0) h;
                     (content, h) = alloc (interpolate env content_final csize) h;
                     (content, h) = alloc (match_color env (h ! content) style0) h;
                     img = init;
                     seed = h ! img;
                     h = h[img := optimize env (h ! content) styles (h ! img)];
                     (init_image, h') = alloc (match_color env (h ! img) style0) h
                 in Inr (\<lparr>styled_size = csize, handed = seed, optimized = h ! img\<rparr>,
                         init, h'))))"

text \<open>
  The loop over \<^verbatim>\<open>range(self.steps)\<close> on the variables \<^verbatim>\<open>init\<close> and \<^verbatim>\<open>img\<close>
  (unbound before the first scale), the heap and the records of the scales recs.
\<close>

fun scale_loop ::
  "'t torch \<Rightarrow> 't \<Rightarrow> int \<Rightarrow> pynum \<Rightarrow> int \<Rightarrow> int list \<Rightarrow>
     nat \<times> nat option \<times> 't list \<times> 't styled list \<Rightarrow>
     error + nat \<times> nat option \<times> 't list \<times> 't styled list" where
  "scale_loop env content_final image_size sf steps [] st = Inr st"
| "scale_loop env content_final image_size sf steps (scale # rest) (init, img, h, recs) =
     (case current_size image_size sf steps scale of
        Inl err \<Rightarrow> Inl err
      | Inr csize \<Rightarrow>
          (case scale_body env content_final csize (init, h) of
             Inl err \<Rightarrow> Inl err
           | Inr (s, init', h') \<Rightarrow>
               scale_loop env content_final image_size sf steps rest
                 (init', Some init', h', recs @ [s])))"

text \<open>
  \<^verbatim>\<open>run\<close> from line 52 on: \<open>content_final\<close> and \<open>init0\<close> are the tensors of lines 44
  to 50.  The result is the record of every scale and the tensor \<^verbatim>\<open>img\<close> that
  \<^verbatim>\<open>deprocess\<close> receives; \<^verbatim>\<open>img\<close> is unbound there when no scale ran.
\<close>

definition run ::
  "'t torch \<Rightarrow> int \<Rightarrow> int \<Rightarrow> int \<Rightarrow> 't \<Rightarrow> 't \<Rightarrow> error + 't styled list \<times> 't" where
  "run env image_size start_size steps content_final init0 =
     (case scale_factor image_size start_size steps of
        Inl err \<Rightarrow> Inl err
      | Inr sf \<Rightarrow>
          (case scale_loop env content_final image_size sf steps (py_range 0 steps)
                  (0, None, [init0], []) of
             Inl err \<Rightarrow> Inl err
           | Inr (init, img, h, recs) \<Rightarrow>
               (case img of
                  None \<Rightarrow> Inl UnboundLocalError
                | Some a \<Rightarrow> Inr (recs, h ! a))))"

section \<open>Properties\<close>

lemma global_epochs_0: "global_epochs ep 0 = []"
  by (simp add: global_epochs_def)

lemma global_epochs_Suc: "global_epochs ep (Suc k) = ep # global_epochs (ep + 1) k"
proof -
  have "[0..<Suc k] = 0 # map Suc [0..<k]"
    by (simp add: upt_conv_Cons map_Suc_upt del: upt_Suc)
  then show ?thesis
    by (simp add: global_epochs_def comp_def del: upt_Suc)
qed


lemma epoch_body_Inr:
  assumes "epoch_body args tot e (ep, self) = Inr st'"
  shows "st' = (ep + 1, self\<lparr>saved := saved self @ map Epoch (filter (due args tot) [ep])\<rparr>)"
  using assms
  by (auto simp: epoch_body_def due_def save_networks_def split: sum.splits if_splits)

lemma epoch_body_total:
  assumes "save_freq args \<noteq> 0" and "of_int (num_epochs args) * fade_in args \<noteq> 0"
  shows "\<exists>st'. epoch_body args tot e st = Inr st'"
  using assms
  by (cases st) (auto simp: epoch_body_def fade_alpha_def)

lemma epoch_loop_Inr:
  assumes "epoch_loop args tot es (ep, self) = Inr st'"
  shows "st' = (ep + int (length es),
                self\<lparr>saved := saved self @
                   map Epoch (filter (due args tot) (global_epochs ep (length es)))\<rparr>)"
  using assms
proof (induction es arbitrary: ep self)
  case Nil
  then show ?case by (simp add: global_epochs_0)
next
  case (Cons e es)
  from Cons.prems obtain st1 where b: "epoch_body args tot e (ep, self) = Inr st1"
    and l: "epoch_loop args tot es st1 = Inr st'"
    by (auto split: sum.splits)
  let ?self1 = "self\<lparr>saved := saved self @ map Epoch (filter (due args tot) [ep])\<rparr>"
  from epoch_body_Inr [OF b] have st1: "st1 = (ep + 1, ?self1)" .
  from Cons.IH [OF l [unfolded st1]] have
    "st' = (ep + 1 + int (length es),
            ?self1\<lparr>saved := saved ?self1 @
               map Epoch (filter (due args tot) (global_epochs (ep + 1) (length es)))\<rparr>)" .
  then show ?case
    by (simp add: global_epochs_Suc add.assoc)
qed

lemma epoch_loop_total:
  assumes "save_freq args \<noteq> 0" and "of_int (num_epochs args) * fade_in args \<noteq> 0"
  shows "\<exists>st'. epoch_loop args tot es st = Inr st'"
proof (induction es arbitrary: st)
  case Nil
  show ?case by simp
next
  case (Cons e es)
  from epoch_body_total [OF assms] obtain st1 where "epoch_body args tot e st = Inr st1"
    by blast
  with Cons.IH [of st1] show ?case by simp
qed



lemma depth_loop_total:
  assumes "save_freq args \<noteq> 0" and "of_int (num_epochs args) * fade_in args \<noteq> 0"
  shows "\<exists>st'. depth_loop args tot sd se ds st = Inr st'"
proof (induction ds arbitrary: st)
  case Nil
  show ?case by simp
next
  case (Cons d ds)
  obtain ep self where st: "st = (ep, self)" by (cases st)
  from epoch_loop_total [OF assms] obtain st1 where
    "epoch_loop args tot (stage_epochs (num_epochs args) sd se d)
        (ep, set_stage_lr args d self) = Inr st1"
    by blast
  with Cons.IH [of st1] st show ?case by simp
qed

lemma py_range_length: "length (py_range a b) = nat (b - a)"
  by (simp add: py_range_def)

lemma py_range_nth: "i < length (py_range a b) \<Longrightarrow> py_range a b ! i = a + int i"
  by (simp add: py_range_def)

lemma current_res_Suc: "current_res (d + 1) = 2 * current_res d"
proof -
  have "(2::rat) powi (d + 2 + 1) = 2 powi (d + 2) * 2"
    by (rule power_int_add_1) simp
  then show ?thesis by (simp add: current_res_def add.commute add.left_commute)
qed

lemma current_res_pos: "0 < current_res d"
  by (simp add: current_res_def)

text \<open>
  Claim C2.  The resolution trained at depth \<open>d\<close> is \<open>2 ^ (d + 2)\<close>, and along the
  depth loop of \<^verbatim>\<open>train\<close> each stage follows the previous depth by one, so that its
  resolution is exactly twice the previous one and strictly larger.
\<close>

theorem stage_resolution_doubles:
  "current_res d = 2 powi (d + 2) \<and>
   (\<forall>i. Suc i < length (stage_depths s sd u) \<longrightarrow>
      stage_depths s sd u ! Suc i = stage_depths s sd u ! i + 1 \<and>
      current_res (stage_depths s sd u ! Suc i) = 2 * current_res (stage_depths s sd u ! i) \<and>
      current_res (stage_depths s sd u ! i) < current_res (stage_depths s sd u ! Suc i))"
proof (intro conjI allI impI)
  show "current_res d = 2 powi (d + 2)" by (simp add: current_res_def)
next
  fix i assume i: "Suc i < length (stage_depths s sd u)"
  let ?ds = "stage_depths s sd u"
  from i have "?ds ! Suc i = s + int (Suc i)" and "?ds ! i = s + int i"
    by (simp_all add: stage_depths_def py_range_nth)
  then show n: "?ds ! Suc i = ?ds ! i + 1" by simp
  show r: "current_res (?ds ! Suc i) = 2 * current_res (?ds ! i)"
    by (simp only: n current_res_Suc)
  show "current_res (?ds ! i) < current_res (?ds ! Suc i)"
    using current_res_pos [of "?ds ! i"] by (simp only: r)
qed

text \<open>
  The default depth 7 (\<^verbatim>\<open>self.depth = 6\<close>) from depth 1: the stages train at 8, 16,
  32, 64 and 128 pixels.
\<close>

theorem stage_resolution_doubles_witness:
  "stage_depths 1 6 None = [1, 2, 3, 4, 5] \<and>
   map current_res (stage_depths 1 6 None) = [8, 16, 32, 64, 128] \<and>
   current_res (stage_depths 1 6 None ! Suc 0) = 2 * current_res (stage_depths 1 6 None ! 0)"
proof -
  have l: "stage_depths 1 6 None = [1, 2, 3, 4, 5]"
    by (simp add: stage_depths_def py_range_def upto.simps)
  have "Suc 0 < length (stage_depths 1 6 None)" by (simp add: l)
  with stage_resolution_doubles [of 1 1 6 None] 
  have "current_res (stage_depths 1 6 None ! Suc 0) = 2 * current_res (stage_depths 1 6 None ! 0)"
    by blast
  moreover have "map current_res [1, 2, 3, 4, 5] = [8, 16, 32, 64, 128]"
    by (simp add: current_res_def)
  ultimately show ?thesis by (simp add: l)
qed

text \<open>
  Claim C3.  With \<open>fade_in\<close> in \<open>(0, 1]\<close> and \<open>num_epochs \<ge> 1\<close> the fade-in
  coefficient of epoch \<open>e\<close> is \<open>min (e / (num_epochs * fade_in)) 1\<close> (the division never
  raises); for \<open>e \<ge> 1\<close> it is positive and at most 1, it is non-decreasing in \<open>e\<close>, and
  it is exactly 1 as soon as \<open>e \<ge> num_epochs * fade_in\<close>.
\<close>

theorem fade_alpha_bounds:
  assumes "0 < fade" and "fade \<le> 1" and "1 \<le> n"
  shows "fade_alpha e n fade = Inr (min (of_int e / (of_int n * fade)) 1) \<and>
    (1 \<le> e \<longrightarrow> (\<exists>a. fade_alpha e n fade = Inr a \<and> 0 < a \<and> a \<le> 1)) \<and>
    (e \<le> e' \<longrightarrow> (\<exists>a a'. fade_alpha e n fade = Inr a \<and> fade_alpha e' n fade = Inr a' \<and> a \<le> a')) \<and>
    (of_int n * fade \<le> of_int e \<longrightarrow> fade_alpha e n fade = Inr 1)"
proof -
  from assms have p: "0 < of_int n * fade" by simp
  from assms have "of_int n * fade \<noteq> 0" by simp
  then have eq: "\<And>k. fade_alpha k n fade = Inr (min (of_int k / (of_int n * fade)) 1)"
    by (simp only: fade_alpha_def if_False)
  have pos: "1 \<le> e \<Longrightarrow> 0 < min (of_int e / (of_int n * fade)) 1"
    using p by simp
  have mono: "e \<le> e' \<Longrightarrow>
      min (of_int e / (of_int n * fade)) 1 \<le> min (of_int e' / (of_int n * fade)) 1"
  proof -
    assume "e \<le> e'"
    then have "real_of_int e / (of_int n * fade) \<le> of_int e' / (of_int n * fade)"
      using p by (simp add: divide_right_mono)
    then show ?thesis by (simp add: min_le_iff_disj)
  qed
  have one: "of_int n * fade \<le> of_int e \<Longrightarrow> min (of_int e / (of_int n * fade)) 1 = (1::real)"
    using p by (simp add: min_def)
  show ?thesis
    using pos mono one by (simp add: eq)
qed

text \<open>
  The defaults \<open>num_epochs = 50\<close>, \<open>fade_in = 0.5\<close>: epoch 10 fades in at \<open>2/5\<close>,
  epochs 25 and 40 are at 1.
\<close>

theorem fade_alpha_bounds_witness:
  "fade_alpha 10 50 (1/2) = Inr (2/5) \<and> fade_alpha 25 50 (1/2) = Inr 1 \<and>
   fade_alpha 40 50 (1/2) = Inr 1"
  using fade_alpha_bounds [of "1/2" 50 25 25] fade_alpha_bounds [of "1/2" 50 40 40]
    fade_alpha_bounds [of "1/2" 50 10 10]
  by simp

lemma setup_loss_state: "snd (setup_loss self l) = self"
  by (cases l) (simp_all add: setup_loss_def Let_def)

lemma setup_loss_Str_ok:
  "(fst (setup_loss self (Str s)) \<noteq> Inl ValueError) = (py_lower s \<in> set known_losses)"
  by (simp add: setup_loss_def Let_def known_losses_def)

lemma setup_loss_error: "fst (setup_loss self l) = Inl err \<Longrightarrow> err = ValueError"
  by (cases l) (auto simp: setup_loss_def Let_def split: if_splits)

lemma setup_loss_ok_indep:
  "(fst (setup_loss self l) = Inl ValueError) = (fst (setup_loss self' l) = Inl ValueError)"
  by (cases l) (simp_all add: setup_loss_def Let_def)

text \<open>
  Claim C7.  \<^verbatim>\<open>setup_loss\<close> returns a loss object for a string exactly when its
  lower-case form is one of the seven names of \<open>known_losses\<close>, returns an instance of
  \<^verbatim>\<open>GANLoss\<close> as it is, and raises \<^verbatim>\<open>ValueError\<close> (and no other error) for every
  other string and every other object; the object \<^verbatim>\<open>self\<close> is the same after the call,
  whether it raised or not.
\<close>

theorem setup_loss_cases:
  "((\<exists>g. fst (setup_loss self (Str s)) = Inr g) \<longleftrightarrow> py_lower s \<in> set known_losses) \<and>
   (py_lower s \<notin> set known_losses \<longrightarrow> fst (setup_loss self (Str s)) = Inl ValueError) \<and>
   fst (setup_loss self (GANLossInstance g)) = Inr (Instance g) \<and>
   fst (setup_loss self Other) = Inl ValueError \<and>
   (\<forall>err. fst (setup_loss self l) = Inl err \<longrightarrow> err = ValueError) \<and>
   snd (setup_loss self l) = self \<and>
   length known_losses = 7 \<and> distinct known_losses"
proof (intro conjI)
  show "(\<exists>g. fst (setup_loss self (Str s)) = Inr g) \<longleftrightarrow> py_lower s \<in> set known_losses"
    using setup_loss_Str_ok [of self s] setup_loss_error [of self "Str s"]
    by (cases "fst (setup_loss self (Str s))") auto
  show "py_lower s \<notin> set known_losses \<longrightarrow> fst (setup_loss self (Str s)) = Inl ValueError"
    using setup_loss_Str_ok [of self s] by blast
  show "fst (setup_loss self (GANLossInstance g)) = Inr (Instance g)"
    by (simp add: setup_loss_def)
  show "fst (setup_loss self Other) = Inl ValueError"
    by (simp add: setup_loss_def)
  show "\<forall>err. fst (setup_loss self l) = Inl err \<longrightarrow> err = ValueError"
    using setup_loss_error by blast
  show "snd (setup_loss self l) = self" by (rule setup_loss_state)
  show "length known_losses = 7" by (simp add: known_losses_def)
  show "distinct known_losses" by (simp add: known_losses_def)
qed

lemma py_lower_WGAN_GP: "py_lower ''WGAN-gp'' = ''wgan-gp''"
  by code_simp

text \<open>
  The name is matched whatever its case: \<^verbatim>\<open>"WGAN-gp"\<close> selects the gradient-penalty
  loss, and \<^verbatim>\<open>"adam"\<close> is refused.
\<close>

theorem setup_loss_cases_witness:
  "fst (setup_loss \<lparr>device = (), depth = 6, drift = 1/1000, D = (), default_rate = 1/1000,
        G_optim = Adam (1/1000) (0, 99/100) (1/10^8), D_optim = Adam (1/1000) (0, 99/100) (1/10^8),
        model_names = [], self_n_critic = 1, self_loss = None, saved = []\<rparr> (Str ''WGAN-gp''))
     = (Inr (WGAN_GP () () (1/1000) True) :: error + (unit, unit, unit) ganloss) \<and>
   fst (setup_loss \<lparr>device = (), depth = 6, drift = 1/1000, D = (), default_rate = 1/1000,
        G_optim = Adam (1/1000) (0, 99/100) (1/10^8), D_optim = Adam (1/1000) (0, 99/100) (1/10^8),
        model_names = [], self_n_critic = 1, self_loss = None, saved = []\<rparr> (Str ''adam''))
     = (Inl ValueError :: error + (unit, unit, unit) ganloss)"
proof -
  let ?self = "\<lparr>device = (), depth = 6, drift = 1/1000, D = (), default_rate = 1/1000,
        G_optim = Adam (1/1000) (0, 99/100) (1/10^8), D_optim = Adam (1/1000) (0, 99/100) (1/10^8),
        model_names = [], self_n_critic = 1, self_loss = None, saved = []\<rparr>
        :: (unit, unit, unit) progan"
  have a: "py_lower ''adam'' \<notin> set known_losses"
    by (simp add: py_lower_def lower_char_def known_losses_def)
  have b: "py_lower ''WGAN-gp'' \<in> set known_losses"
    by (simp add: py_lower_WGAN_GP known_losses_def)
  from a setup_loss_cases [of ?self "''adam''"]
  have "fst (setup_loss ?self (Str ''adam'')) = Inl ValueError" by blast
  moreover from b setup_loss_cases [of ?self "''WGAN-gp''"]
  obtain g where "fst (setup_loss ?self (Str ''WGAN-gp'')) = Inr g" by blast
  then have "fst (setup_loss ?self (Str ''WGAN-gp'')) = Inr (WGAN_GP () () (1/1000) True)"
    by (simp add: setup_loss_def py_lower_WGAN_GP)
  ultimately show ?thesis by simp
qed



lemma train_Inr:
  assumes t: "train args latest self0 = Inr self'"
    and r: "resume args (num_epochs args * depth self0) latest = Inr (ep0, sd, se)"
  shows "\<exists>g ep' self3.
     fst (setup_loss (self0\<lparr>model_names := [''G'', ''D''], self_n_critic := n_critic args\<rparr>)
            (loss args)) = Inr g \<and>
     depth_loop args (num_epochs args * depth self0) sd se
        (stage_depths sd (depth self0) (until_depth args))
        (ep0, self0\<lparr>model_names := [''G'', ''D''], self_n_critic := n_critic args,
                    self_loss := Some g\<rparr>) = Inr (ep', self3) \<and>
     self' = save_networks Final self3"
  using t r
  by (auto simp: train_def Let_def split: sum.splits prod.splits)

lemma train_total:
  assumes sf: "save_freq args \<noteq> 0" and nf: "of_int (num_epochs args) * fade_in args \<noteq> 0"
    and l: "fst (setup_loss self0 (loss args)) \<noteq> Inl ValueError"
    and r: "resume args (num_epochs args * depth self0) latest = Inr (ep0, sd, se)"
  shows "\<exists>self'. train args latest self0 = Inr self'"
proof -
  let ?self1 = "self0\<lparr>model_names := [''G'', ''D''], self_n_critic := n_critic args\<rparr>"
  from l have "fst (setup_loss ?self1 (loss args)) \<noteq> Inl ValueError"
    using setup_loss_ok_indep [of self0 "loss args" ?self1] by simp
  then obtain g where g: "fst (setup_loss ?self1 (loss args)) = Inr g"
    using setup_loss_error [of ?self1 "loss args"]
    by (cases "fst (setup_loss ?self1 (loss args))") auto
  let ?self2 = "?self1\<lparr>self_loss := Some g\<rparr>"
  from depth_loop_total [OF sf nf] obtain st' where
    "depth_loop args (num_epochs args * depth self0) sd se
        (stage_depths sd (depth self0) (until_depth args)) (ep0, ?self2) = Inr st'"
    by blast
  with g r show ?thesis
    by (cases st') (simp add: train_def Let_def)
qed


lemma param_groups_setattr_lr: "param_groups (setattr_lr opt v) = param_groups opt"
  by (simp add: setattr_lr_def)

lemma param_groups_set_stage_lr:
  "param_groups (G_optim (set_stage_lr args d self)) = param_groups (G_optim self) \<and>
   param_groups (D_optim (set_stage_lr args d self)) = param_groups (D_optim self)"
  by (simp add: set_stage_lr_def Let_def param_groups_setattr_lr)

lemma depth_loop_param_groups:
  assumes "depth_loop args tot sd se ds (ep, self) = Inr (ep', self')"
  shows "param_groups (G_optim self') = param_groups (G_optim self) \<and>
         param_groups (D_optim self') = param_groups (D_optim self)"
  using assms
proof (induction ds arbitrary: ep self)
  case Nil
  then show ?case by simp
next
  case (Cons d ds)
  let ?es = "stage_epochs (num_epochs args) sd se d"
  from Cons.prems obtain st1 where
    e: "epoch_loop args tot ?es (ep, set_stage_lr args d self) = Inr st1"
    and r: "depth_loop args tot sd se ds st1 = Inr (ep', self')"
    by (auto split: sum.splits)
  obtain ep1 self1 where st1: "st1 = (ep1, self1)" by (cases st1)
  from epoch_loop_Inr [OF e] st1 have
    "G_optim self1 = G_optim (set_stage_lr args d self)"
    "D_optim self1 = D_optim (set_stage_lr args d self)"
    by simp_all
  with Cons.IH [OF r [unfolded st1]] param_groups_set_stage_lr [of args d self]
  show ?case by simp
qed

text \<open>
  Claim C8.  The per-resolution update stores the looked-up rate in the attribute
  \<^verbatim>\<open>lr\<close> of both optimizer objects and leaves their parameter groups as they were:
  the step size Adam applies is still the one of the constructor, also after a whole
  run of \<^verbatim>\<open>train\<close>, whatever \<^verbatim>\<open>learning_rates_dict\<close> holds.
\<close>

theorem stage_lr_keeps_step_size:
  "step_sizes (G_optim (set_stage_lr args d self)) = step_sizes (G_optim self) \<and>
   step_sizes (D_optim (set_stage_lr args d self)) = step_sizes (D_optim self) \<and>
   attrs (G_optim (set_stage_lr args d self)) ''lr'' =
     Some (case learning_rates_dict args (current_res d) of
             None \<Rightarrow> default_rate self | Some r \<Rightarrow> r) \<and>
   attrs (D_optim (set_stage_lr args d self)) ''lr'' =
     Some (case learning_rates_dict args (current_res d) of
             None \<Rightarrow> default_rate self | Some r \<Rightarrow> r) \<and>
   step_sizes (G_optim (init_optimizers rate b1 b2 e self)) = [rate] \<and>
   step_sizes (D_optim (init_optimizers rate b1 b2 e self)) = [rate] \<and>
   (\<forall>self'. train args latest (init_optimizers rate b1 b2 e self) = Inr self' \<longrightarrow>
      step_sizes (G_optim self') = [rate] \<and> step_sizes (D_optim self') = [rate])"
proof (intro conjI allI impI)
  show "step_sizes (G_optim (set_stage_lr args d self)) = step_sizes (G_optim self)"
    and "step_sizes (D_optim (set_stage_lr args d self)) = step_sizes (D_optim self)"
    by (simp_all add: step_sizes_def param_groups_set_stage_lr)
  show "attrs (G_optim (set_stage_lr args d self)) ''lr'' =
     Some (case learning_rates_dict args (current_res d) of
             None \<Rightarrow> default_rate self | Some r \<Rightarrow> r)"
    and "attrs (D_optim (set_stage_lr args d self)) ''lr'' =
     Some (case learning_rates_dict args (current_res d) of
             None \<Rightarrow> default_rate self | Some r \<Rightarrow> r)"
    by (simp_all add: set_stage_lr_def Let_def setattr_lr_def)
  show i: "step_sizes (G_optim (init_optimizers rate b1 b2 e self)) = [rate]"
    and j: "step_sizes (D_optim (init_optimizers rate b1 b2 e self)) = [rate]"
    by (simp_all add: step_sizes_def init_optimizers_def Adam_def)
  fix self' assume t: "train args latest (init_optimizers rate b1 b2 e self) = Inr self'"
  let ?s = "init_optimizers rate b1 b2 e self"
  from t obtain ep0 sd se where r: "resume args (num_epochs args * depth ?s) latest = Inr (ep0, sd, se)"
    by (auto simp: train_def Let_def split: sum.splits prod.splits)
  from train_Inr [OF t r] obtain g ep' self3 where
    d: "depth_loop args (num_epochs args * depth ?s) sd se
        (stage_depths sd (depth ?s) (until_depth args))
        (ep0, ?s\<lparr>model_names := [''G'', ''D''], self_n_critic := n_critic args,
                    self_loss := Some g\<rparr>) = Inr (ep', self3)"
    and s: "self' = save_networks Final self3"
    by blast
  from depth_loop_param_groups [OF d] s
  have "param_groups (G_optim self') = param_groups (G_optim ?s)"
    and "param_groups (D_optim self') = param_groups (D_optim ?s)"
    by (simp_all add: save_networks_def)
  with i j show "step_sizes (G_optim self') = [rate]" and "step_sizes (D_optim self') = [rate]"
    by (simp_all add: step_sizes_def)
qed

lemma example_resume:
  "resume example_args (num_epochs example_args * depth example_progan) (\<lambda>a b. b) = Inr (1, 1, 1)"
  by (simp add: resume_def example_args_def)



lemma example_loss: "fst (setup_loss example_progan (loss example_args)) \<noteq> Inl ValueError"
  by (simp add: setup_loss_Str_ok example_args_def known_losses_def py_lower_def lower_char_def)


lemma example_init:
  "init_optimizers (1/1000) 0 (99/100) (1/10^8) example_progan = example_progan"
  by (simp add: init_optimizers_def example_progan_def)

text \<open>
  In the example run the dictionary asks for \<open>1/4000\<close> at resolution 16; the attribute
  takes that value and the step size stays at \<open>1/1000\<close>.
\<close>

theorem stage_lr_keeps_step_size_witness:
  "\<exists>self'. train example_args (\<lambda>a b. b) example_progan = Inr self' \<and>
      step_sizes (G_optim self') = [1/1000] \<and> step_sizes (D_optim self') = [1/1000] \<and>
      attrs (G_optim (set_stage_lr example_args 2 example_progan)) ''lr'' = Some (1/4000)"
proof -
  have "save_freq example_args \<noteq> 0"
    and "of_int (num_epochs example_args) * fade_in example_args \<noteq> 0"
    by (simp_all add: example_args_def)
  from train_total [OF this example_loss example_resume] obtain self' where
    r: "train example_args (\<lambda>a b. b) example_progan = Inr self'"
    by blast
  note t = stage_lr_keeps_step_size [of example_args 2 example_progan "1/1000" 0 "99/100"
      "1/10^8" "\<lambda>a b. b", unfolded example_init]
  from t r have "step_sizes (G_optim self') = [1/1000] \<and> step_sizes (D_optim self') = [1/1000]"
    by blast
  moreover from t have "attrs (G_optim (set_stage_lr example_args 2 example_progan)) ''lr'' =
      Some (case learning_rates_dict example_args (current_res 2) of
             None \<Rightarrow> default_rate example_progan | Some r \<Rightarrow> r)"
    by blast
  then have "attrs (G_optim (set_stage_lr example_args 2 example_progan)) ''lr'' = Some (1/4000)"
    by (simp add: example_args_def current_res_def)
  ultimately show ?thesis using r by blast
qed

lemma update_loop_ok:
  assumes "distinct (map snd tgt)"
    and "\<forall>n a. (n, a) \<in> set tgt \<longrightarrow> (\<exists>b. d n = Some b \<and> b \<notin> snd ` set tgt)"
  shows "\<exists>v'. update_loop beta d tgt v = Inr v' \<and>
           (\<forall>n a. (n, a) \<in> set tgt \<longrightarrow>
              (\<exists>b. d n = Some b \<and> v' a = beta *\<^sub>R v a + (1 - beta) *\<^sub>R v b)) \<and>
           (\<forall>a. a \<notin> snd ` set tgt \<longrightarrow> v' a = v a)"
  using assms
proof (induction tgt arbitrary: v)
  case Nil
  show ?case by simp
next
  case (Cons p rest)
  obtain n a where p: "p = (n, a)" by (cases p)
  have "(n, a) \<in> set (p # rest)" by (simp add: p)
  with Cons.prems(2) obtain b where b: "d n = Some b" and bt: "b \<notin> snd ` set (p # rest)"
    by blast
  from bt p have ba: "b \<noteq> a" and br: "b \<notin> snd ` set rest" by auto
  from Cons.prems(1) p have ar: "a \<notin> snd ` set rest" and dr: "distinct (map snd rest)"
    by auto
  let ?v1 = "v(a := beta *\<^sub>R v a + (1 - beta) *\<^sub>R v b)"
  have pre: "\<forall>n' a'. (n', a') \<in> set rest \<longrightarrow> (\<exists>b'. d n' = Some b' \<and> b' \<notin> snd ` set rest)"
    using Cons.prems(2) by fastforce
  from Cons.IH [OF dr pre, of ?v1] obtain v' where
    r: "update_loop beta d rest ?v1 = Inr v'"
    and f: "\<forall>n' a'. (n', a') \<in> set rest \<longrightarrow>
              (\<exists>b'. d n' = Some b' \<and> v' a' = beta *\<^sub>R ?v1 a' + (1 - beta) *\<^sub>R ?v1 b')"
    and k: "\<forall>a'. a' \<notin> snd ` set rest \<longrightarrow> v' a' = ?v1 a'"
    by blast
  have run: "update_loop beta d (p # rest) v = Inr v'"
    using b ba r by (simp add: p)
  have head: "v' a = beta *\<^sub>R v a + (1 - beta) *\<^sub>R v b"
    using k ar by simp
  have tail: "\<exists>b'. d n' = Some b' \<and> v' a' = beta *\<^sub>R v a' + (1 - beta) *\<^sub>R v b'"
    if m: "(n', a') \<in> set rest" for n' a'
  proof -
    from f m obtain b' where b': "d n' = Some b'"
      and e: "v' a' = beta *\<^sub>R ?v1 a' + (1 - beta) *\<^sub>R ?v1 b'"
      by blast
    from m ar have "a' \<noteq> a" by force
    moreover from Cons.prems(2) m b' p have "b' \<noteq> a" by fastforce
    ultimately show ?thesis using b' e by simp
  qed
  have frame: "\<forall>a'. a' \<notin> snd ` set (p # rest) \<longrightarrow> v' a' = v a'"
    using k p by auto
  from run head tail frame b show ?case
    unfolding p by auto
qed

lemma py_dict_Some: "py_dict kvs k = Some v \<Longrightarrow> (k, v) \<in> set kvs"
  by (auto simp: py_dict_def dest: map_of_SomeD)

lemma py_dict_defined: "k \<in> fst ` set kvs \<Longrightarrow> \<exists>v. py_dict kvs k = Some v"
proof -
  assume "k \<in> fst ` set kvs"
  then have "k \<in> fst ` set (rev kvs)" by simp
  then have "map_of (rev kvs) k \<noteq> None" by (simp only: map_of_eq_None_iff not_not)
  then show ?thesis by (auto simp: py_dict_def)
qed

lemma py_dict_distinct:
  "distinct (map fst kvs) \<Longrightarrow> (k, v) \<in> set kvs \<Longrightarrow> py_dict kvs k = Some v"
  by (simp add: py_dict_def rev_map [symmetric])

lemma update_average_ok:
  assumes names: "fst ` set model_tgt \<subseteq> fst ` set model_src"
    and dist: "distinct (map snd model_tgt)"
    and apart: "snd ` set model_tgt \<inter> snd ` set model_src = {}"
  shows "\<exists>st'. update_average srg model_tgt model_src beta st = Inr st' \<and>
      (\<forall>n a. (n, a) \<in> set model_tgt \<longrightarrow>
         (\<exists>b. py_dict model_src n = Some b \<and>
              vals st' a = beta *\<^sub>R vals st a + (1 - beta) *\<^sub>R vals st b)) \<and>
      (\<forall>a. a \<notin> snd ` set model_tgt \<longrightarrow> vals st' a = vals st a) \<and>
      next_addr st' = next_addr st"
proof -
  have pre: "\<forall>n a. (n, a) \<in> set model_tgt \<longrightarrow>
      (\<exists>b. py_dict model_src n = Some b \<and> b \<notin> snd ` set model_tgt)"
  proof (intro allI impI)
    fix n a assume "(n, a) \<in> set model_tgt"
    then have "n \<in> fst ` set model_tgt" by force
    with names have "n \<in> fst ` set model_src" by blast
    from py_dict_defined [OF this] obtain b where b: "py_dict model_src n = Some b" by blast
    from py_dict_Some [OF b] have "b \<in> snd ` set model_src" by force
    with apart have "b \<notin> snd ` set model_tgt" by blast
    with b show "\<exists>b. py_dict model_src n = Some b \<and> b \<notin> snd ` set model_tgt" by blast
  qed
  from update_loop_ok [OF dist pre, of beta "vals st"] obtain v' where
    r: "update_loop beta (py_dict model_src) model_tgt (vals st) = Inr v'"
    and f: "\<forall>n a. (n, a) \<in> set model_tgt \<longrightarrow>
              (\<exists>b. py_dict model_src n = Some b \<and>
                   v' a = beta *\<^sub>R vals st a + (1 - beta) *\<^sub>R vals st b)"
    and k: "\<forall>a. a \<notin> snd ` set model_tgt \<longrightarrow> v' a = vals st a"
    by blast
  let ?st' = "st\<lparr>vals := v',
      requires_grad := srg model_src True (srg model_tgt True
        (srg model_src False (srg model_tgt False (requires_grad st))))\<rparr>"
  have "update_average srg model_tgt model_src beta st = Inr ?st'"
    using r by (simp add: update_average_def Let_def)
  moreover have "vals ?st' = v'" and "next_addr ?st' = next_addr st" by simp_all
  ultimately show ?thesis using f k by metis
qed

lemma deepcopy_eq:
  "deepcopy G st =
     (zip (map fst G) [next_addr st..<next_addr st + length G],
      st\<lparr>vals := copy_cells (next_addr st) G (vals st),
         requires_grad := copy_cells (next_addr st) G (requires_grad st),
         next_addr := next_addr st + length G\<rparr>)"
  by (simp add: deepcopy_def Let_def)

lemma deepcopy_names: "map fst (fst (deepcopy G st)) = map fst G"
  by (simp add: deepcopy_eq)

lemma deepcopy_addrs:
  "map snd (fst (deepcopy G st)) = [next_addr st..<next_addr st + length G]"
  by (simp add: deepcopy_eq)

lemma deepcopy_old: "a < next_addr st \<Longrightarrow> vals (snd (deepcopy G st)) a = vals st a"
  by (simp add: deepcopy_eq copy_cells_def)

lemma deepcopy_new:
  "i < length G \<Longrightarrow> vals (snd (deepcopy G st)) (next_addr st + i) = vals st (snd (G ! i))"
  by (simp add: deepcopy_eq copy_cells_def)

lemma deepcopy_nth:
  "i < length G \<Longrightarrow> fst (deepcopy G st) ! i = (fst (G ! i), next_addr st + i)"
  by (simp add: deepcopy_eq)

lemma init_shadow_ok:
  fixes st :: "('a::real_vector) params_state"
  assumes dn: "distinct (map fst G)"
    and fresh: "\<forall>n a. (n, a) \<in> set G \<longrightarrow> a < next_addr st"
  shows "\<exists>G_shadow st'. init_shadow srg True G st = Inr (Some G_shadow, st') \<and>
       map fst G_shadow = map fst G \<and>
       (\<forall>i<length G. vals st' (snd (G_shadow ! i)) = vals st' (snd (G ! i)) \<and>
                      vals st' (snd (G ! i)) = vals st (snd (G ! i)))"
proof -
  let ?n = "next_addr st"
  let ?Gs = "fst (deepcopy G st)"
  let ?st1 = "snd (deepcopy G st)"
  have dc: "deepcopy G st = (?Gs, ?st1)" by simp
  have sh: "snd ` set ?Gs = {?n..<?n + length G}"
  proof -
    have "snd ` set ?Gs = set (map snd ?Gs)" by simp
    also have "\<dots> = {?n..<?n + length G}" by (simp only: deepcopy_addrs set_upt)
    finally show ?thesis .
  qed
  have names: "fst ` set ?Gs \<subseteq> fst ` set G"
  proof -
    have "fst ` set ?Gs = set (map fst ?Gs)" by simp
    also have "\<dots> = set (map fst G)" by (simp only: deepcopy_names)
    finally show ?thesis by simp
  qed
  have dist: "distinct (map snd ?Gs)" by (simp only: deepcopy_addrs distinct_upt)
  have low: "x < ?n" if "x \<in> snd ` set G" for x
  proof -
    from that obtain q where "q \<in> set G" and "x = snd q" by blast
    then have "(fst q, x) \<in> set G" by simp
    with fresh show "x < ?n" by blast
  qed
  have apart: "snd ` set ?Gs \<inter> snd ` set G = {}"
  proof (rule ccontr)
    assume "snd ` set ?Gs \<inter> snd ` set G \<noteq> {}"
    then obtain x where "x \<in> snd ` set ?Gs" and "x \<in> snd ` set G" by blast
    with low [of x] sh show False by simp
  qed
  from update_average_ok [OF names dist apart, of srg 0 ?st1] obtain st2 where
    u: "update_average srg ?Gs G 0 ?st1 = Inr st2"
    and f: "\<forall>n a. (n, a) \<in> set ?Gs \<longrightarrow>
         (\<exists>b. py_dict G n = Some b \<and>
              vals st2 a = 0 *\<^sub>R vals ?st1 a + (1 - 0) *\<^sub>R vals ?st1 b)"
    and k: "\<forall>a. a \<notin> snd ` set ?Gs \<longrightarrow> vals st2 a = vals ?st1 a"
    by blast
  have r: "init_shadow srg True G st = Inr (Some ?Gs, st2)"
    unfolding init_shadow_def using u by (simp add: case_prod_beta)
  have v: "vals st2 (snd (?Gs ! i)) = vals st2 (snd (G ! i)) \<and>
           vals st2 (snd (G ! i)) = vals st (snd (G ! i))" if i: "i < length G" for i
  proof -
    from i have gi: "(fst (G ! i), snd (G ! i)) \<in> set G" by simp
    then have "snd (G ! i) \<in> snd ` set G" by force
    from low [OF this] have lt: "snd (G ! i) < ?n" .
    then have "snd (G ! i) \<notin> snd ` set ?Gs" by (simp add: sh)
    with k have "vals st2 (snd (G ! i)) = vals ?st1 (snd (G ! i))" by blast
    with deepcopy_old [OF lt, of G] have src: "vals st2 (snd (G ! i)) = vals st (snd (G ! i))"
      by simp
    have nth: "?Gs ! i = (fst (G ! i), ?n + i)" by (rule deepcopy_nth [OF i])
    have "length ?Gs = length G" by (simp add: deepcopy_eq)
    with i have "?Gs ! i \<in> set ?Gs" by simp
    then have "(fst (G ! i), ?n + i) \<in> set ?Gs" by (simp only: nth)
    with f obtain b where b: "py_dict G (fst (G ! i)) = Some b"
      and e: "vals st2 (?n + i) = 0 *\<^sub>R vals ?st1 (?n + i) + (1 - 0) *\<^sub>R vals ?st1 b"
      by blast
    from py_dict_distinct [OF dn gi] b have bb: "b = snd (G ! i)" by simp
    from e have "vals st2 (?n + i) = vals ?st1 b" by simp
    with bb deepcopy_old [OF lt, of G] have "vals st2 (?n + i) = vals st (snd (G ! i))"
      by simp
    with src nth show ?thesis by simp
  qed
  have "map fst ?Gs = map fst G" by (rule deepcopy_names)
  with r v show ?thesis by blast
qed

text \<open>
  Claim C1, amended.  For two models that share no parameter tensor, whose named
  parameters coincide and where the target lists each tensor once, \<^verbatim>\<open>update_average\<close>
  returns, sets every target parameter to \<open>beta * p_tgt + (1 - beta) * p_src\<close> (with
  \<open>p_src\<close> the source parameter of the same name, both read before the call) and
  leaves every parameter of the source as it was.  In the constructor the shadow
  generator is a deep copy of the generator and the call has \<open>beta = 0\<close>: afterwards
  every parameter of the shadow equals the generator's parameter of the same position,
  and the generator's parameters are unchanged.  Tensor arithmetic is the one of a real
  vector space.
\<close>

theorem update_average_ema:
  fixes st :: "('a::real_vector) params_state"
  shows
  "(fst ` set model_tgt = fst ` set model_src \<and> distinct (map snd model_tgt) \<and>
    snd ` set model_tgt \<inter> snd ` set model_src = {} \<longrightarrow>
      (\<exists>st'. update_average srg model_tgt model_src beta st = Inr st' \<and>
         (\<forall>n a. (n, a) \<in> set model_tgt \<longrightarrow>
            (\<exists>b. py_dict model_src n = Some b \<and>
                 vals st' a = beta *\<^sub>R vals st a + (1 - beta) *\<^sub>R vals st b)) \<and>
         (\<forall>n b. (n, b) \<in> set model_src \<longrightarrow> vals st' b = vals st b))) \<and>
   (distinct (map fst G) \<and> (\<forall>n a. (n, a) \<in> set G \<longrightarrow> a < next_addr st) \<longrightarrow>
      (\<exists>G_shadow st'. init_shadow srg True G st = Inr (Some G_shadow, st') \<and>
         map fst G_shadow = map fst G \<and>
         (\<forall>i<length G. vals st' (snd (G_shadow ! i)) = vals st' (snd (G ! i)) \<and>
                        vals st' (snd (G ! i)) = vals st (snd (G ! i)))))"
proof (intro conjI impI)
  assume a: "fst ` set model_tgt = fst ` set model_src \<and> distinct (map snd model_tgt) \<and>
    snd ` set model_tgt \<inter> snd ` set model_src = {}"
  then have names: "fst ` set model_tgt \<subseteq> fst ` set model_src"
    and dist: "distinct (map snd model_tgt)"
    and apart: "snd ` set model_tgt \<inter> snd ` set model_src = {}"
    by simp_all
  from update_average_ok [OF names dist apart, of srg beta st] obtain st' where
    u: "update_average srg model_tgt model_src beta st = Inr st'"
    and f: "\<forall>n a. (n, a) \<in> set model_tgt \<longrightarrow>
         (\<exists>b. py_dict model_src n = Some b \<and>
              vals st' a = beta *\<^sub>R vals st a + (1 - beta) *\<^sub>R vals st b)"
    and k: "\<forall>a. a \<notin> snd ` set model_tgt \<longrightarrow> vals st' a = vals st a"
    by blast
  have "\<forall>n b. (n, b) \<in> set model_src \<longrightarrow> vals st' b = vals st b"
  proof (intro allI impI)
    fix n b assume "(n, b) \<in> set model_src"
    then have "b \<in> snd ` set model_src" by force
    with apart have "b \<notin> snd ` set model_tgt" by blast
    with k show "vals st' b = vals st b" by blast
  qed
  with u f show "\<exists>st'. update_average srg model_tgt model_src beta st = Inr st' \<and>
         (\<forall>n a. (n, a) \<in> set model_tgt \<longrightarrow>
            (\<exists>b. py_dict model_src n = Some b \<and>
                 vals st' a = beta *\<^sub>R vals st a + (1 - beta) *\<^sub>R vals st b)) \<and>
         (\<forall>n b. (n, b) \<in> set model_src \<longrightarrow> vals st' b = vals st b)"
    by blast
next
  assume "distinct (map fst G) \<and> (\<forall>n a. (n, a) \<in> set G \<longrightarrow> a < next_addr st)"
  then show "\<exists>G_shadow st'. init_shadow srg True G st = Inr (Some G_shadow, st') \<and>
         map fst G_shadow = map fst G \<and>
         (\<forall>i<length G. vals st' (snd (G_shadow ! i)) = vals st' (snd (G ! i)) \<and>
                        vals st' (snd (G ! i)) = vals st (snd (G ! i)))"
    using init_shadow_ok [of G st srg] by blast
qed

text \<open>
  The claim as stated, for every pair of models whose named parameters coincide, fails
  on the pair of a model with itself: the assertion \<^verbatim>\<open>p_src is not p_tgt\<close> of line
  123 raises and no parameter is updated.
\<close>

theorem update_average_same_model_counterexample:
  "update_average (\<lambda>m b f. f) [(''weight'', 0)] [(''weight'', 0)] (999/1000) example_params
     = Inl AssertionError"
  by (simp add: update_average_def py_dict_def)

text \<open>One parameter, target 4 and source 2, \<open>beta = 1/2\<close>: the target becomes 3.\<close>

theorem update_average_ema_witness:
  "\<exists>st'. update_average (\<lambda>m b f. f) [(''weight'', 1)] [(''weight'', 0)] (1/2) example_params
            = Inr st' \<and> vals st' 1 = 3 \<and> vals st' 0 = 2"
proof -
  have h: "fst ` set [(''weight'', 1::nat)] = fst ` set [(''weight'', 0::nat)] \<and>
      distinct (map snd [(''weight'', 1::nat)]) \<and>
      snd ` set [(''weight'', 1::nat)] \<inter> snd ` set [(''weight'', 0::nat)] = {}"
    by simp
  note t = update_average_ema [of "[(''weight'', 1)]" "[(''weight'', 0)]" "\<lambda>m b f. f" "1/2"
      example_params, THEN conjunct1, THEN mp, OF h]
  then obtain st' where
    u: "update_average (\<lambda>m b f. f) [(''weight'', 1)] [(''weight'', 0)] (1/2) example_params
          = Inr st'"
    and f: "\<forall>n a. (n, a) \<in> set [(''weight'', 1::nat)] \<longrightarrow>
            (\<exists>b. py_dict [(''weight'', 0::nat)] n = Some b \<and>
                 vals st' a = (1/2) *\<^sub>R vals example_params a
                     + (1 - 1/2) *\<^sub>R vals example_params b)"
    and k: "\<forall>n b. (n, b) \<in> set [(''weight'', 0::nat)] \<longrightarrow> vals st' b = vals example_params b"
    by (elim exE conjE)
  have d: "py_dict [(''weight'', 0::nat)] ''weight'' = Some 0"
    by (simp add: py_dict_def)
  have "(''weight'', 1::nat) \<in> set [(''weight'', 1::nat)]" by simp
  with f obtain b where "py_dict [(''weight'', 0::nat)] ''weight'' = Some b"
    and e: "vals st' 1 = (1/2) *\<^sub>R vals example_params 1 + (1 - 1/2) *\<^sub>R vals example_params b"
    by blast
  with d have "b = 0" by simp
  with e have v1: "vals st' 1 = 3" by (simp add: example_params_def)
  have "(''weight'', 0::nat) \<in> set [(''weight'', 0::nat)]" by simp
  with k have "vals st' 0 = vals example_params 0" by blast
  then have v0: "vals st' 0 = 2" by (simp add: example_params_def)
  from u v1 v0 show ?thesis by blast
qed

lemma round_half_even_of_int: "round_half_even (of_int n) = n"
  by (simp add: round_half_even_def)

lemma round_half_even_low:
  assumes "of_int n \<le> x" and "x < of_int n + 1/2"
  shows "round_half_even x = n"
proof -
  from assms have "\<lfloor>x\<rfloor> = n" by (intro floor_unique) simp_all
  with assms show ?thesis by (simp add: round_half_even_def Let_def)
qed

lemma round_half_even_bounds:
  "\<lfloor>x\<rfloor> \<le> round_half_even x \<and> round_half_even x \<le> \<lfloor>x\<rfloor> + 1"
  by (simp add: round_half_even_def Let_def)

lemma round_half_even_mono:
  assumes "x \<le> y"
  shows "round_half_even x \<le> round_half_even y"
proof (cases "\<lfloor>x\<rfloor> = \<lfloor>y\<rfloor>")
  case True
  with assms have "x - of_int \<lfloor>x\<rfloor> \<le> y - of_int \<lfloor>y\<rfloor>" by simp
  with True show ?thesis
    by (auto simp: round_half_even_def Let_def)
next
  case False
  with assms have "\<lfloor>x\<rfloor> < \<lfloor>y\<rfloor>" using floor_mono [of x y] by simp
  then have "\<lfloor>x\<rfloor> + 1 \<le> \<lfloor>y\<rfloor>" by simp
  with round_half_even_bounds [of x] round_half_even_bounds [of y] show ?thesis by linarith
qed

lemma divide_times_float:
  "sf \<noteq> 0 \<Longrightarrow> divide_times k (PyFloat c) (PyFloat sf) = Inr (PyFloat (c / sf ^ k))"
proof (induction k arbitrary: c)
  case 0
  show ?case by simp
next
  case (Suc k)
  then show ?case by (simp add: py_div_def divide_simps)
qed

lemma current_size_float:
  "sf \<noteq> 0 \<Longrightarrow> current_size image_size (PyFloat sf) steps scale
      = Inr (round_half_even (of_int image_size / sf ^ nat (steps - 1 - scale)))"
  by (simp add: current_size_def divide_times_float py_round_def)

lemma sizes_loop_float:
  "sf \<noteq> 0 \<Longrightarrow> sizes_loop image_size (PyFloat sf) steps scales
      = Inr (map (\<lambda>k. round_half_even (of_int image_size / sf ^ nat (steps - 1 - k))) scales)"
  by (induction scales) (simp_all add: current_size_float)

lemma scale_factor_pos:
  assumes "0 < start_size" and "0 < image_size" and "steps \<noteq> 1"
  shows "scale_factor image_size start_size steps
     = Inr (PyFloat ((of_int image_size / of_int start_size) powr (1 / of_int (steps - 1))))"
proof -
  from assms have r: "0 < real_of_int image_size / real_of_int start_size" by simp
  from r have nz: "real_of_int image_size / real_of_int start_size \<noteq> 0"
    by (rule less_imp_neq [THEN not_sym])
  from r have nn: "\<not> real_of_int image_size / real_of_int start_size < 0"
    by (rule less_not_sym)
  from assms have e: "1 / real_of_int (steps - 1) \<noteq> 0" by simp
  from assms have s: "start_size \<noteq> 0" "steps - 1 \<noteq> 0" by simp_all
  show ?thesis
    unfolding scale_factor_def py_pow_def
    by (simp only: s nz nn e if_False simp_thms)
qed

lemma scale_factor_power:
  assumes "0 < (r::real)" and "2 \<le> steps"
  shows "(r powr (1 / of_int (steps - 1))) ^ nat (steps - 1) = r"
proof -
  from assms(2) have n: "real (nat (steps - 1)) = of_int (steps - 1)" and "0 < steps - 1"
    by simp_all
  have "0 < r powr (1 / of_int (steps - 1))" using assms(1) by simp
  then have "(r powr (1 / of_int (steps - 1))) ^ nat (steps - 1)
      = (r powr (1 / of_int (steps - 1))) powr real (nat (steps - 1))"
    by (simp only: powr_realpow)
  also have "\<dots> = r powr ((1 / of_int (steps - 1)) * of_int (steps - 1))"
    by (simp only: powr_powr n)
  also have "\<dots> = r"
    using assms by simp
  finally show ?thesis .
qed

lemma styling_sizes_eq:
  assumes "0 < start_size" and "0 < image_size" and "steps \<noteq> 1"
    and sf: "sf = (of_int image_size / of_int start_size) powr (1 / of_int (steps - 1))"
  shows "styling_sizes image_size start_size steps
     = Inr (map (\<lambda>k. round_half_even (of_int image_size / sf ^ nat (steps - 1 - k)))
              (py_range 0 steps))"
proof -
  define r where "r = real_of_int image_size / real_of_int start_size"
  from assms have "0 < r" by (simp add: r_def)
  then have "0 < r powr (1 / of_int (steps - 1))" by simp
  then have "sf \<noteq> 0" by (simp only: sf r_def [symmetric])
  have "scale_factor image_size start_size steps = Inr (PyFloat sf)"
    using scale_factor_pos [OF assms(1-3)] by (simp only: sf)
  with \<open>sf \<noteq> 0\<close> show ?thesis
    by (simp add: styling_sizes_def sizes_loop_float)
qed

lemma styling_sizes_nth:
  assumes "k < nat steps"
  shows "map (\<lambda>k. round_half_even (of_int image_size / sf ^ nat (steps - 1 - k)))
              (py_range 0 steps) ! k
         = round_half_even (of_int image_size / sf ^ (nat steps - 1 - k))"
proof -
  from assms have l: "k < length (py_range 0 steps)" by (simp add: py_range_length)
  then have "py_range 0 steps ! k = int k" by (simp add: py_range_nth)
  moreover from assms have "nat (steps - 1 - int k) = nat steps - 1 - k" by linarith
  ultimately show ?thesis using l by simp
qed

lemma unrounded_strict:
  assumes "1 < (sf::real)" and "0 < (c::real)" and "j < k" and "k < n"
  shows "c / sf ^ (n - 1 - j) < c / sf ^ (n - 1 - k)"
proof -
  from assms have "n - 1 - k < n - 1 - j" by linarith
  with assms(1) have "sf ^ (n - 1 - k) < sf ^ (n - 1 - j)" by (simp add: power_strict_increasing)
  moreover from assms(1) have "0 < sf ^ (n - 1 - k)" by simp
  ultimately show ?thesis using assms(2) by (simp add: divide_strict_left_mono)
qed

lemma unrounded_mono:
  assumes "1 \<le> (sf::real)" and "0 < (c::real)" and "j \<le> k"
  shows "c / sf ^ (n - 1 - j) \<le> c / sf ^ (n - 1 - k)"
proof -
  from assms have "n - 1 - k \<le> n - 1 - j" by linarith
  with assms(1) have "sf ^ (n - 1 - k) \<le> sf ^ (n - 1 - j)" by (simp add: power_increasing)
  moreover from assms(1) have "0 < sf ^ (n - 1 - k)" by simp
  ultimately show ?thesis using assms(2) by (simp add: divide_left_mono)
qed

text \<open>
  Claim C4, amended.  With \<open>steps \<ge> 2\<close> and positive sizes the scale factor is
  \<open>(image_size / start_size) powr (1 / (steps - 1))\<close>, and \<^verbatim>\<open>run\<close> styles at
  \<open>steps\<close> sizes, the one of scale \<open>k\<close> being \<open>image_size / scale_factor ^ (steps - 1 -
  k)\<close> rounded.  The first size is \<open>start_size\<close> and the last is \<open>image_size\<close>.  When
  \<open>image_size > start_size\<close> the quotients before rounding strictly increase with the
  scale, and the rounded sizes never decrease (two neighbours may round to the same
  size).  The arithmetic is the one of the reals.
\<close>

theorem styling_sizes_coarse_to_fine:
  assumes steps: "2 \<le> steps" and start: "0 < start_size" and image: "0 < image_size"
    and sf: "sf = (of_int image_size / of_int start_size) powr (1 / of_int (steps - 1))"
  shows "scale_factor image_size start_size steps = Inr (PyFloat sf) \<and>
    (\<exists>sizes. styling_sizes image_size start_size steps = Inr sizes \<and>
       length sizes = nat steps \<and>
       (\<forall>k<nat steps.
          sizes ! k = round_half_even (of_int image_size / sf ^ (nat steps - 1 - k))) \<and>
       sizes ! 0 = start_size \<and> sizes ! (nat steps - 1) = image_size \<and>
       (start_size \<le> image_size \<longrightarrow> sorted sizes)) \<and>
    (start_size < image_size \<longrightarrow>
       (\<forall>j k. j < k \<and> k < nat steps \<longrightarrow>
          of_int image_size / sf ^ (nat steps - 1 - j)
            < of_int image_size / sf ^ (nat steps - 1 - k)))"
proof -
  define r where "r = real_of_int image_size / real_of_int start_size"
  define f where "f = (\<lambda>k. round_half_even (of_int image_size / sf ^ (nat steps - 1 - k)))"
  let ?sizes = "map (\<lambda>k. round_half_even (of_int image_size / sf ^ nat (steps - 1 - k)))
              (py_range 0 steps)"
  from start image have rpos: "0 < r" by (simp add: r_def)
  have sfr: "sf = r powr (1 / of_int (steps - 1))" by (simp only: sf r_def)
  from steps have ne: "steps \<noteq> 1" by simp
  from steps have epos: "0 < 1 / real_of_int (steps - 1)" by simp
  have c: "0 < real_of_int image_size" using image by simp
  have sc: "scale_factor image_size start_size steps = Inr (PyFloat sf)"
    using scale_factor_pos [OF start image ne] by (simp only: sf)
  have eq: "styling_sizes image_size start_size steps = Inr ?sizes"
    by (rule styling_sizes_eq [OF start image ne sf])
  have len: "length ?sizes = nat steps" by (simp add: py_range_length)
  have nth: "?sizes ! k = f k" if "k < nat steps" for k
    unfolding f_def by (rule styling_sizes_nth [OF that])
  have pw: "sf ^ (nat steps - 1) = r"
  proof -
    from steps have "nat steps - 1 = nat (steps - 1)" by simp
    then show ?thesis using scale_factor_power [OF rpos steps] by (simp only: sfr)
  qed
  have first: "?sizes ! 0 = start_size"
  proof -
    from steps have "0 < nat steps" by simp
    then have "?sizes ! 0 = f 0" by (rule nth)
    also have "\<dots> = round_half_even (of_int image_size / sf ^ (nat steps - 1))"
      by (simp add: f_def)
    also have "\<dots> = round_half_even (of_int image_size / r)" by (simp only: pw)
    also have "of_int image_size / r = of_int start_size"
      using start image by (simp add: r_def)
    finally show ?thesis by (simp add: round_half_even_of_int)
  qed
  have last: "?sizes ! (nat steps - 1) = image_size"
  proof -
    from steps have "nat steps - 1 < nat steps" by simp
    then have "?sizes ! (nat steps - 1) = f (nat steps - 1)" by (rule nth)
    then show ?thesis by (simp add: f_def round_half_even_of_int)
  qed
  have srt: "sorted ?sizes" if le: "start_size \<le> image_size"
  proof -
    from le start have "1 \<le> r" by (simp add: r_def)
    with epos have one: "1 \<le> sf" unfolding sfr by (simp add: ge_one_powr_ge_zero)
    have "?sizes ! i \<le> ?sizes ! j" if "i \<le> j" and "j < length ?sizes" for i j
    proof -
      from that len have j: "j < nat steps" and i: "i < nat steps" by simp_all
      from unrounded_mono [OF one c \<open>i \<le> j\<close>, of "nat steps"]
      have "f i \<le> f j" unfolding f_def by (rule round_half_even_mono)
      then show ?thesis by (simp only: nth [OF i] nth [OF j])
    qed
    then show ?thesis by (simp only: sorted_iff_nth_mono) blast
  qed
  have strict: "of_int image_size / sf ^ (nat steps - 1 - j)
            < of_int image_size / sf ^ (nat steps - 1 - k)"
    if lt: "start_size < image_size" and "j < k" and "k < nat steps" for j k
  proof -
    from lt start have "1 < r" by (simp add: r_def)
    with epos have "1 < sf" unfolding sfr by (simp add: gr_one_powr)
    from unrounded_strict [OF this c \<open>j < k\<close> \<open>k < nat steps\<close>] show ?thesis .
  qed
  have all: "\<forall>k<nat steps.
      ?sizes ! k = round_half_even (of_int image_size / sf ^ (nat steps - 1 - k))"
    using nth by (simp only: f_def) blast
  have ex: "\<exists>sizes. styling_sizes image_size start_size steps = Inr sizes \<and>
       length sizes = nat steps \<and>
       (\<forall>k<nat steps.
          sizes ! k = round_half_even (of_int image_size / sf ^ (nat steps - 1 - k))) \<and>
       sizes ! 0 = start_size \<and> sizes ! (nat steps - 1) = image_size \<and>
       (start_size \<le> image_size \<longrightarrow> sorted sizes)"
    using eq len all first last srt by (intro exI [of _ ?sizes] conjI impI)
  from sc ex strict show ?thesis by blast
qed

lemma py_range_0_3: "py_range 0 3 = [0, 1, 2]"
  by (simp add: py_range_def upto.simps)

lemma py_range_0_2: "py_range 0 2 = [0, 1]"
  by (simp add: py_range_def upto.simps)

lemma sqrt_512_511_bounds:
  "1024 / 1023 < sqrt (512 / 511 :: real) \<and> sqrt (512 / 511 :: real) \<le> 512 / 511"
proof
  have "(1024 / 1023 :: real)\<^sup>2 < 512 / 511" by (simp add: power2_eq_square)
  then show "1024 / 1023 < sqrt (512 / 511 :: real)" by (rule real_less_rsqrt)
  have "(512 / 511 :: real) \<le> (512 / 511)\<^sup>2" by (simp add: power2_eq_square)
  then show "sqrt (512 / 511 :: real) \<le> 512 / 511" by (intro real_le_lsqrt) simp_all
qed

lemma middle_size_512_511: "round_half_even (512 / sqrt (512 / 511 :: real)) = 511"
proof -
  let ?s = "sqrt (512 / 511 :: real)"
  from sqrt_512_511_bounds have lo: "1024 / 1023 < ?s" and hi: "?s \<le> 512 / 511" by simp_all
  from lo have pos: "0 < ?s" by simp
  have "511 * ?s \<le> 512" using hi by simp
  then have a: "511 \<le> 512 / ?s" using pos by (simp add: pos_le_divide_eq)
  have "512 < (1023 / 2) * ?s" using lo by simp
  then have b: "512 / ?s < 1023 / 2" using pos by (simp add: pos_divide_less_eq)
  have "round_half_even (512 / ?s) = (511::int)"
    by (rule round_half_even_low) (use a b in simp_all)
  then show ?thesis .
qed

text \<open>
  The claim's last part fails: from 511 to 512 pixels in three steps the scale factor
  is \<open>sqrt (512/511)\<close>, the middle quotient \<open>512 / sqrt (512/511)\<close> lies below 511.5,
  and the first two scales are both styled at 511.
\<close>

theorem styling_sizes_not_strict_counterexample:
  "styling_sizes 512 511 3 = Inr [511, 511, 512]"
proof -
  let ?sf = "(of_int 512 / of_int 511 :: real) powr (1 / of_int (3 - 1))"
  have sf: "?sf = sqrt (512 / 511)" by (simp add: powr_half_sqrt)
  have sq: "(sqrt (512 / 511 :: real)) ^ 2 = 512 / 511" by simp
  have "styling_sizes 512 511 3
     = Inr (map (\<lambda>k. round_half_even (of_int 512 / ?sf ^ nat (3 - 1 - k))) (py_range 0 3))"
    by (rule styling_sizes_eq) simp_all
  also have "map (\<lambda>k. round_half_even (of_int 512 / ?sf ^ nat (3 - 1 - k))) (py_range 0 3)
     = [round_half_even (512 / (sqrt (512 / 511)) ^ 2),
        round_half_even (512 / sqrt (512 / 511)),
        round_half_even 512]"
    by (simp only: sf py_range_0_3) simp
  also have "round_half_even (512 / (sqrt (512 / 511 :: real)) ^ 2) = 511"
    using round_half_even_of_int [of 511] by (simp only: sq) simp
  also have "round_half_even (512 :: real) = 512"
    using round_half_even_of_int [of 512] by simp
  finally show ?thesis by (simp only: middle_size_512_511)
qed

text \<open>From 256 to 512 pixels in two steps: the scale factor is 2, the sizes 256 and 512.\<close>

theorem styling_sizes_coarse_to_fine_witness:
  "scale_factor 512 256 2 = Inr (PyFloat 2) \<and>
   (\<exists>sizes. styling_sizes 512 256 2 = Inr sizes \<and> length sizes = 2 \<and>
      sizes ! 0 = 256 \<and> sizes ! 1 = 512 \<and> sorted sizes)"
proof -
  have sf: "(2::real) = (of_int 512 / of_int 256) powr (1 / of_int (2 - 1))" by simp
  note t = styling_sizes_coarse_to_fine [of 2 256 512 2, OF _ _ _ sf]
  have t': "scale_factor 512 256 2 = Inr (PyFloat 2) \<and>
    (\<exists>sizes. styling_sizes 512 256 2 = Inr sizes \<and>
       length sizes = nat 2 \<and>
       (\<forall>k<nat 2.
          sizes ! k = round_half_even (of_int 512 / 2 ^ (nat 2 - 1 - k))) \<and>
       sizes ! 0 = 256 \<and> sizes ! (nat 2 - 1) = 512 \<and>
       ((256::int) \<le> 512 \<longrightarrow> sorted sizes))"
    using t by simp
  then obtain sizes where "styling_sizes 512 256 2 = Inr sizes" and "length sizes = nat 2"
    and "sizes ! 0 = 256" and "sizes ! (nat 2 - 1) = 512" and "(256::int) \<le> 512 \<longrightarrow> sorted sizes"
    by (elim exE conjE)
  then have "styling_sizes 512 256 2 = Inr sizes \<and> length sizes = 2 \<and>
      sizes ! 0 = 256 \<and> sizes ! 1 = 512 \<and> sorted sizes"
    by simp
  then have "\<exists>sizes. styling_sizes 512 256 2 = Inr sizes \<and> length sizes = 2 \<and>
      sizes ! 0 = 256 \<and> sizes ! 1 = 512 \<and> sorted sizes" ..
  with t' show ?thesis by (simp only: simp_thms)
qed

lemma py_pow_cases:
  "py_pow x y = Inl ZeroDivisionError \<or> (\<exists>c. py_pow x y = Inr c)"
  by (simp add: py_pow_def)






end
